theory Spec2Isabelle
  imports Complex_Main
begin

section \<open>The L-system rewriting engine (src/algorithms/lsystem.js)\<close>

text \<open>
  The class \<open>LSystem\<close> stores the axiom, the rule object, the iteration count and the
  string of the last expansion. The rule object maps a single character to its
  replacement; a key that is absent is \<open>None\<close>.
\<close>

record LSystem =
  axiom :: string
  rules :: "char \<rightharpoonup> string"
  iterations :: nat
  currentString :: string

text \<open>The constructor: \<open>iterations\<close> defaults to 3 when the argument is not passed.\<close>

definition new_LSystem :: "string \<Rightarrow> (char \<rightharpoonup> string) \<Rightarrow> nat option \<Rightarrow> LSystem" where
  "new_LSystem a r it =
     \<lparr>axiom = a, rules = r,
      iterations = (case it of None \<Rightarrow> 3 | Some n \<Rightarrow> n),
      currentString = a\<rparr>"

text \<open>
  The test \<open>if (this.rules[char])\<close> is a truthiness test: it fails for an absent key and
  also for a rule whose replacement is the empty string.
\<close>

definition rule_truthy :: "string option \<Rightarrow> bool" where
  "rule_truthy r = (case r of None \<Rightarrow> False | Some s \<Rightarrow> s \<noteq> [])"

text \<open>The inner loop \<open>for (let char of this.currentString)\<close>, building \<open>newString\<close>.\<close>

fun rewrite_chars :: "(char \<rightharpoonup> string) \<Rightarrow> string \<Rightarrow> string \<Rightarrow> string" where
  "rewrite_chars r [] newString = newString"
| "rewrite_chars r (c # cs) newString =
     (if rule_truthy (r c) then rewrite_chars r cs (newString @ the (r c))
      else rewrite_chars r cs (newString @ [c]))"

text \<open>The outer loop \<open>for (let i = 0; i < this.iterations; i++)\<close>.\<close>

fun iterate_loop :: "(char \<rightharpoonup> string) \<Rightarrow> nat \<Rightarrow> string \<Rightarrow> string" where
  "iterate_loop r 0 cur = cur"
| "iterate_loop r (Suc n) cur = iterate_loop r n (rewrite_chars r cur [])"

text \<open>
  \<open>iterate()\<close> first resets \<open>currentString\<close> to the axiom, runs the passes, stores the
  result in the object and returns it: the model returns the string and the new object.
\<close>

definition iterate :: "LSystem \<Rightarrow> string \<times> LSystem" where
  "iterate ls =
     (let s = iterate_loop (rules ls) (iterations ls) (axiom ls)
      in (s, ls\<lparr>currentString := s\<rparr>))"

definition getString :: "LSystem \<Rightarrow> string" where
  "getString ls = currentString ls"

definition defaultPlantRules :: "char \<rightharpoonup> string" where
  "defaultPlantRules = [CHR ''F'' \<mapsto> ''F[+F]F[-F]F'']"

definition defaultAxiom :: string where
  "defaultAxiom = ''F''"

section \<open>The turtle interpreter (parseLSystemString)\<close>

record vec3 =
  vx :: real
  vy :: real
  vz :: real

datatype command = Line (from_pt: vec3) (to_pt: vec3)

text \<open>A saved pose on the branch stack: \<open>{x, y, z, angle}\<close>.\<close>

record saved_pose =
  sx :: real
  sy :: real
  sz :: real
  sangle :: real

text \<open>
  The local variables of \<open>parseLSystemString\<close>. The stack is a list whose head is the top:
  \<open>push\<close> is \<open>#\<close> and \<open>pop\<close> takes the head.
\<close>

record turtle =
  commands :: "command list"
  stack :: "saved_pose list"
  currentAngle :: real
  tx :: real
  ty :: real
  tz :: real

definition turtle_init :: turtle where
  "turtle_init = \<lparr>commands = [], stack = [], currentAngle = 0, tx = 0, ty = 0, tz = 0\<rparr>"

text \<open>One pass of the loop body: the \<open>switch (char)\<close>, in the order of the source.\<close>

definition turtle_step :: "real \<Rightarrow> real \<Rightarrow> turtle \<Rightarrow> char \<Rightarrow> turtle" where
  "turtle_step angle stepSize t c =
     (if c = CHR ''F'' \<or> c = CHR ''G'' then
        (let newX = tx t + sin (currentAngle t) * stepSize;
             newY = ty t + cos (currentAngle t) * stepSize;
             newZ = tz t
         in t\<lparr>commands := commands t @
                  [Line \<lparr>vx = tx t, vy = ty t, vz = tz t\<rparr> \<lparr>vx = newX, vy = newY, vz = newZ\<rparr>],
               tx := newX, ty := newY, tz := newZ\<rparr>)
      else if c = CHR ''+'' then t\<lparr>currentAngle := currentAngle t + angle\<rparr>
      else if c = CHR ''-'' then t\<lparr>currentAngle := currentAngle t - angle\<rparr>
      else if c = CHR ''&'' then t
      else if c = CHR ''^'' then t
      else if c = CHR 0x5C then t
      else if c = CHR ''/'' then t
      else if c = CHR ''|'' then t\<lparr>currentAngle := currentAngle t + pi\<rparr>
      else if c = CHR ''['' then
        t\<lparr>stack := \<lparr>sx = tx t, sy = ty t, sz = tz t, sangle = currentAngle t\<rparr> # stack t\<rparr>
      else if c = CHR '']'' then
        (case stack t of
           [] \<Rightarrow> t
         | state # rest \<Rightarrow>
             t\<lparr>stack := rest, tx := sx state, ty := sy state, tz := sz state,
               currentAngle := sangle state\<rparr>)
      else t)"

text \<open>The loop \<open>for (let i = 0; i < lstring.length; i++)\<close> from a given turtle state.\<close>

fun turtle_run :: "real \<Rightarrow> real \<Rightarrow> turtle \<Rightarrow> string \<Rightarrow> turtle" where
  "turtle_run angle stepSize t [] = t"
| "turtle_run angle stepSize t (c # cs) = turtle_run angle stepSize (turtle_step angle stepSize t c) cs"

definition parseLSystemString :: "string \<Rightarrow> real \<Rightarrow> real \<Rightarrow> command list" where
  "parseLSystemString lstring angle stepSize = commands (turtle_run angle stepSize turtle_init lstring)"

text \<open>The pose of the turtle: its position and its heading.\<close>

definition pose :: "turtle \<Rightarrow> real \<times> real \<times> real \<times> real" where
  "pose t = (tx t, ty t, tz t, currentAngle t)"

text \<open>The symbols that the interpreter acts on.\<close>

definition acting_symbols :: "char set" where
  "acting_symbols = {CHR ''F'', CHR ''G'', CHR ''+'', CHR ''-'', CHR ''|'', CHR ''['', CHR '']''}"

section \<open>The building shape grammar (src/algorithms/buildingGrammar.js)\<close>

text \<open>
  A JavaScript value, for the configuration key \<open>hasStairs\<close>, which the constructor
  compares with \<open>false\<close> whatever its type; an absent key reads as \<open>undefined\<close>.
\<close>

datatype jsval = JUndefined | JNull | JBool bool | JNum real | JStr string

text \<open>
  The configuration object. A numeric key is absent (\<open>None\<close>) or a number, which may be
  negative or fractional: the constructor checks neither \<open>levels\<close> nor \<open>roomsPerLevel\<close>.
\<close>

record BuildingConfig =
  cfg_levels :: "real option"
  cfg_roomsPerLevel :: "real option"
  cfg_roomSize :: "real option"
  cfg_levelHeight :: "real option"
  cfg_wallThickness :: "real option"
  cfg_hasStairs :: jsval
  cfg_roomLayout :: "string option"

text \<open>
  \<open>config.key || d\<close>: the default is taken when the key is absent and also when its value
  is falsy, that is 0 for a number and the empty string for a string.
\<close>

definition num_or :: "'a::zero option \<Rightarrow> 'a \<Rightarrow> 'a" where
  "num_or v d = (case v of None \<Rightarrow> d | Some n \<Rightarrow> if n = 0 then d else n)"

definition str_or :: "string option \<Rightarrow> string \<Rightarrow> string" where
  "str_or v d = (case v of None \<Rightarrow> d | Some s \<Rightarrow> if s = [] then d else s)"

record BuildingGrammar =
  levels :: real
  roomsPerLevel :: real
  roomSize :: real
  levelHeight :: real
  wallThickness :: real
  hasStairs :: bool
  roomLayout :: string

definition new_BuildingGrammar :: "BuildingConfig \<Rightarrow> BuildingGrammar" where
  "new_BuildingGrammar config =
     \<lparr>levels = num_or (cfg_levels config) 3,
      roomsPerLevel = num_or (cfg_roomsPerLevel config) 4,
      roomSize = num_or (cfg_roomSize config) 4.0,
      levelHeight = num_or (cfg_levelHeight config) 3.0,
      wallThickness = num_or (cfg_wallThickness config) 0.2,
      hasStairs = (cfg_hasStairs config \<noteq> JBool False),
      roomLayout = str_or (cfg_roomLayout config) ''grid''\<rparr>"

record room_position =
  px :: real
  pz :: real

datatype direction = East | West | South | North

record connection =
  conn_to :: string
  conn_direction :: direction

record room =
  room_id :: string
  room_x :: real
  room_y :: real
  room_z :: real
  room_width :: real
  room_depth :: real
  room_height :: real
  room_level :: nat
  connections :: "connection list"

record level_data =
  level_index :: nat
  level_y :: real
  rooms :: "room list"

record stair =
  stair_x :: real
  stair_y :: real
  stair_z :: real
  stair_width :: real
  stair_depth :: real
  stair_height :: real
  stair_level :: nat

record building =
  building_levels :: "level_data list"
  stairs :: "stair list"

text \<open>Reading a property of \<open>undefined\<close> throws a \<open>TypeError\<close>.\<close>

datatype error = TypeError

text \<open>The decimal text of an index, as the template string \<open>`${index}`\<close> writes it.\<close>

definition digit_char :: "nat \<Rightarrow> char" where
  "digit_char d = ''0123456789'' ! d"

fun string_of_nat :: "nat \<Rightarrow> string" where
  "string_of_nat n =
     (if n < 10 then [digit_char n] else string_of_nat (n div 10) @ [digit_char (n mod 10)])"

declare string_of_nat.simps [simp del]

text \<open>The template string \<open>`level-${levelIndex}-room-${index}`\<close>.\<close>

definition room_name :: "nat \<Rightarrow> nat \<Rightarrow> string" where
  "room_name levelIndex index' = ''level-'' @ string_of_nat levelIndex @ ''-room-'' @ string_of_nat index'"

text \<open>
  The four layouts of \<open>generateRoomPositions\<close>. Each loop
  \<open>for (let i = 0; i < this.roomsPerLevel; i++)\<close> runs \<open>i\<close> over the naturals below
  \<open>roomsPerLevel\<close>: there are \<open>nat \<lceil>roomsPerLevel\<rceil>\<close> of them, none when \<open>roomsPerLevel \<le> 0\<close>.
  In the grid, \<open>cols\<close> and \<open>rows\<close> are only read inside the loop, where both are positive
  whole numbers.
\<close>

definition grid_positions :: "BuildingGrammar \<Rightarrow> room_position list" where
  "grid_positions g =
     (let spacing = roomSize g * 1.1;
          cols = nat \<lceil>sqrt (roomsPerLevel g)\<rceil>;
          rows = nat \<lceil>roomsPerLevel g / real cols\<rceil>
      in map (\<lambda>i. let col = i mod cols; row = i div cols
                   in \<lparr>px = (real col - (real cols - 1) / 2) * spacing,
                       pz = (real row - (real rows - 1) / 2) * spacing\<rparr>)
             [0..<nat \<lceil>roomsPerLevel g\<rceil>])"

definition linear_positions :: "BuildingGrammar \<Rightarrow> room_position list" where
  "linear_positions g =
     (let spacing = roomSize g * 1.1
      in map (\<lambda>i. \<lparr>px = (real i - (roomsPerLevel g - 1) / 2) * spacing, pz = 0\<rparr>)
             [0..<nat \<lceil>roomsPerLevel g\<rceil>])"

definition radial_positions :: "BuildingGrammar \<Rightarrow> room_position list" where
  "radial_positions g =
     (let spacing = roomSize g * 1.1;
          angleStep = (pi * 2) / roomsPerLevel g;
          radius = spacing * 1.5
      in map (\<lambda>i. let angle = real i * angleStep
                   in \<lparr>px = cos angle * radius, pz = sin angle * radius\<rparr>)
             [0..<nat \<lceil>roomsPerLevel g\<rceil>])"

definition default_positions :: "BuildingGrammar \<Rightarrow> room_position list" where
  "default_positions g =
     (let spacing = roomSize g * 1.1
      in map (\<lambda>i. \<lparr>px = (real (i mod 3) - 1) * spacing, pz = (real (i div 3) - 1) * spacing\<rparr>)
             [0..<nat \<lceil>roomsPerLevel g\<rceil>])"

definition generateRoomPositions :: "BuildingGrammar \<Rightarrow> nat \<Rightarrow> room_position list" where
  "generateRoomPositions g levelIndex =
     (if roomLayout g = ''grid'' then grid_positions g
      else if roomLayout g = ''linear'' then linear_positions g
      else if roomLayout g = ''radial'' then radial_positions g
      else default_positions g)"

definition getDirection :: "room_position \<Rightarrow> room_position \<Rightarrow> direction" where
  "getDirection from' to' =
     (let dx = px to' - px from'; dz = pz to' - pz from'
      in if \<bar>dx\<bar> > \<bar>dz\<bar> then (if dx > 0 then East else West)
         else (if dz > 0 then South else North))"

text \<open>
  The body of the inner \<open>positions.forEach((otherPos, otherIndex) => ...)\<close>, on the
  connection list of the room being built.
\<close>

definition connect_step ::
  "BuildingGrammar \<Rightarrow> nat \<Rightarrow> nat \<Rightarrow> room_position \<Rightarrow> connection list \<Rightarrow> nat \<times> room_position \<Rightarrow> connection list" where
  "connect_step g levelIndex index' pos conns other =
     (let otherIndex = fst other; otherPos = snd other
      in if index' = otherIndex then conns
         else
           (let distance = sqrt ((px pos - px otherPos)\<^sup>2 + (pz pos - pz otherPos)\<^sup>2)
            in if distance < roomSize g * 1.2 then
                 (let direction = getDirection pos otherPos
                  in if \<not> list_ex (\<lambda>c. conn_to c = room_name levelIndex otherIndex) conns
                     then conns @ [\<lparr>conn_to = room_name levelIndex otherIndex,
                                    conn_direction = direction\<rparr>]
                     else conns)
               else conns))"

text \<open>The body of the outer \<open>positions.forEach((pos, index) => ...)\<close>: one room.\<close>

definition make_room :: "BuildingGrammar \<Rightarrow> nat \<Rightarrow> room_position list \<Rightarrow> nat \<times> room_position \<Rightarrow> room" where
  "make_room g levelIndex positions ip =
     (let index' = fst ip; pos = snd ip; y = real levelIndex * levelHeight g
      in \<lparr>room_id = room_name levelIndex index',
          room_x = px pos, room_y = y, room_z = pz pos,
          room_width = roomSize g, room_depth = roomSize g, room_height = levelHeight g,
          room_level = levelIndex,
          connections = foldl (connect_step g levelIndex index' pos) [] (enumerate 0 positions)\<rparr>)"

definition generateLevel :: "BuildingGrammar \<Rightarrow> nat \<Rightarrow> level_data" where
  "generateLevel g levelIndex =
     (let y = real levelIndex * levelHeight g;
          positions = generateRoomPositions g levelIndex
      in \<lparr>level_index = levelIndex, level_y = y,
          rooms = map (make_room g levelIndex positions) (enumerate 0 positions)\<rparr>)"

text \<open>
  \<open>generateStairs\<close> reads \<open>levelData.rooms[0]\<close> and then its \<open>x\<close>: on an empty room list the
  first is \<open>undefined\<close> and the second throws.
\<close>

definition generateStairs :: "BuildingGrammar \<Rightarrow> nat \<Rightarrow> level_data \<Rightarrow> error + stair" where
  "generateStairs g levelIndex levelData =
     (case rooms levelData of
        [] \<Rightarrow> Inl TypeError
      | firstRoom # _ \<Rightarrow>
          Inr \<lparr>stair_x = room_x firstRoom, stair_y = level_y levelData, stair_z = room_z firstRoom,
               stair_width = 1.0, stair_depth = 1.0, stair_height = levelHeight g,
               stair_level = levelIndex\<rparr>)"

text \<open>
  The loop \<open>for (let level = 0; level < this.levels; level++)\<close> of \<open>generate\<close>, over the
  level indices still to come (the naturals below \<open>levels\<close>); an exception leaves the loop.
\<close>

fun generate_loop :: "BuildingGrammar \<Rightarrow> nat list \<Rightarrow> building \<Rightarrow> error + building" where
  "generate_loop g [] b = Inr b"
| "generate_loop g (level # rest) b =
     (let levelData = generateLevel g level;
          b1 = b\<lparr>building_levels := building_levels b @ [levelData]\<rparr>
      in if hasStairs g \<and> real level < levels g - 1 then
           (case generateStairs g level levelData of
              Inl e \<Rightarrow> Inl e
            | Inr st \<Rightarrow> generate_loop g rest (b1\<lparr>stairs := stairs b1 @ [st]\<rparr>))
         else generate_loop g rest b1)"

definition generate :: "BuildingGrammar \<Rightarrow> error + building" where
  "generate g = generate_loop g [0..<nat \<lceil>levels g\<rceil>] \<lparr>building_levels = [], stairs = []\<rparr>"

text \<open>The planar distance of two rooms of a level.\<close>

definition planar_distance :: "room \<Rightarrow> room \<Rightarrow> real" where
  "planar_distance r1 r2 = sqrt ((room_x r1 - room_x r2)\<^sup>2 + (room_z r1 - room_z r2)\<^sup>2)"

text \<open>
  Two configurations used as examples: the grid layout with 4 rooms, every other key
  absent, and a configuration whose \<open>roomsPerLevel\<close> is 0.
\<close>

definition grid_four_config :: BuildingConfig where
  "grid_four_config =
     \<lparr>cfg_levels = None, cfg_roomsPerLevel = Some 4, cfg_roomSize = None,
      cfg_levelHeight = None, cfg_wallThickness = None, cfg_hasStairs = JUndefined,
      cfg_roomLayout = Some ''grid''\<rparr>"

definition zero_rooms_config :: BuildingConfig where
  "zero_rooms_config =
     \<lparr>cfg_levels = None, cfg_roomsPerLevel = Some 0, cfg_roomSize = None,
      cfg_levelHeight = None, cfg_wallThickness = None, cfg_hasStairs = JUndefined,
      cfg_roomLayout = None\<rparr>"

section \<open>The flocking simulator (src/algorithms/flocking.js)\<close>

text \<open>
  Modelled from the spec: the class \<open>Vector3\<close> of the three.js library, which the simulator
  imports and which is not part of the sources. The spec's "3D vector arithmetic and
  clamped steering forces" are the library's operations, over the reals: \<open>normalize\<close>
  divides by the length, or by 1 when the length is 0; \<open>clampLength\<close> rescales the vector
  to its length clamped into the given interval; \<open>divideScalar s\<close> multiplies by \<open>1 / s\<close>.
  The library mutates the receiver; the model returns the new vector.
\<close>

definition zero_v :: vec3 where
  "zero_v = \<lparr>vx = 0, vy = 0, vz = 0\<rparr>"

definition add_v :: "vec3 \<Rightarrow> vec3 \<Rightarrow> vec3" where
  "add_v a b = \<lparr>vx = vx a + vx b, vy = vy a + vy b, vz = vz a + vz b\<rparr>"

definition subVectors :: "vec3 \<Rightarrow> vec3 \<Rightarrow> vec3" where
  "subVectors a b = \<lparr>vx = vx a - vx b, vy = vy a - vy b, vz = vz a - vz b\<rparr>"

definition multiplyScalar :: "vec3 \<Rightarrow> real \<Rightarrow> vec3" where
  "multiplyScalar a s = \<lparr>vx = vx a * s, vy = vy a * s, vz = vz a * s\<rparr>"

definition divideScalar :: "vec3 \<Rightarrow> real \<Rightarrow> vec3" where
  "divideScalar a s = multiplyScalar a (1 / s)"

definition length_v :: "vec3 \<Rightarrow> real" where
  "length_v a = sqrt (vx a * vx a + vy a * vy a + vz a * vz a)"

definition normalize :: "vec3 \<Rightarrow> vec3" where
  "normalize a = divideScalar a (if length_v a = 0 then 1 else length_v a)"

definition clampLength :: "vec3 \<Rightarrow> real \<Rightarrow> real \<Rightarrow> vec3" where
  "clampLength a mn mx =
     (let l = length_v a
      in multiplyScalar (divideScalar a (if l = 0 then 1 else l)) (max mn (min mx l)))"

definition distanceTo :: "vec3 \<Rightarrow> vec3 \<Rightarrow> real" where
  "distanceTo a b = length_v (subVectors a b)"

record Boid =
  position :: vec3
  velocity :: vec3
  acceleration :: vec3

definition new_Boid :: "vec3 \<Rightarrow> vec3 \<Rightarrow> Boid" where
  "new_Boid p v = \<lparr>position = p, velocity = v, acceleration = zero_v\<rparr>"

text \<open>\<open>Boid.update(deltaTime)\<close>. The speed limit is the local constant \<open>maxSpeed = 5.0\<close>.\<close>

definition Boid_update :: "real \<Rightarrow> Boid \<Rightarrow> Boid" where
  "Boid_update deltaTime b =
     (let v1 = add_v (velocity b) (multiplyScalar (acceleration b) deltaTime);
          maxSpeed = 5.0;
          v2 = (if length_v v1 > maxSpeed then multiplyScalar (normalize v1) maxSpeed else v1);
          p = add_v (position b) (multiplyScalar v2 deltaTime)
      in \<lparr>position = p, velocity = v2, acceleration = multiplyScalar (acceleration b) 0\<rparr>)"

definition applyForce :: "Boid \<Rightarrow> vec3 \<Rightarrow> Boid" where
  "applyForce b force = b\<lparr>acceleration := add_v (acceleration b) force\<rparr>"

record Bounds =
  width :: real
  height :: real
  depth :: real

record FlockConfig =
  fc_separation :: real
  fc_alignment :: real
  fc_cohesion :: real
  fc_separationRadius :: real
  fc_neighborRadius :: real
  fc_maxSpeed :: real
  fc_maxForce :: real
  fc_bounds :: Bounds
  fc_center :: vec3
  fc_planeHeight :: real

text \<open>The argument of the constructor: every key may be absent.\<close>

record FlockOptions =
  opt_separation :: "real option"
  opt_alignment :: "real option"
  opt_cohesion :: "real option"
  opt_separationRadius :: "real option"
  opt_neighborRadius :: "real option"
  opt_maxSpeed :: "real option"
  opt_maxForce :: "real option"
  opt_bounds :: "Bounds option"
  opt_center :: "vec3 option"
  opt_planeHeight :: "real option"

text \<open>\<open>v ?? d\<close>: the default only when the key is absent.\<close>

definition nullish :: "'a option \<Rightarrow> 'a \<Rightarrow> 'a" where
  "nullish v d = (case v of None \<Rightarrow> d | Some a \<Rightarrow> a)"

record FlockingSystem =
  boids :: "Boid list"
  config :: FlockConfig

definition new_FlockingSystem :: "FlockOptions \<Rightarrow> FlockingSystem" where
  "new_FlockingSystem c =
     \<lparr>boids = [],
      config =
        \<lparr>fc_separation = nullish (opt_separation c) 1.5,
         fc_alignment = nullish (opt_alignment c) 1.0,
         fc_cohesion = nullish (opt_cohesion c) 1.0,
         fc_separationRadius = nullish (opt_separationRadius c) 2.0,
         fc_neighborRadius = nullish (opt_neighborRadius c) 5.0,
         fc_maxSpeed = nullish (opt_maxSpeed c) 5.0,
         fc_maxForce = nullish (opt_maxForce c) 0.1,
         fc_bounds = nullish (opt_bounds c) \<lparr>width = 50, height = 50, depth = 50\<rparr>,
         fc_center = nullish (opt_center c) \<lparr>vx = 0, vy = 50, vz = 0\<rparr>,
         fc_planeHeight = nullish (opt_planeHeight c) 50\<rparr>\<rparr>"

definition addBoid :: "FlockingSystem \<Rightarrow> Boid \<Rightarrow> FlockingSystem" where
  "addBoid sys b = sys\<lparr>boids := boids sys @ [b]\<rparr>"

text \<open>
  A boid is an object, and \<open>other === boid\<close> compares identities: the model names a boid
  by its index in \<open>this.boids\<close>, and the loops run over the indexed list.
\<close>

definition separate_step ::
  "FlockingSystem \<Rightarrow> nat \<Rightarrow> Boid \<Rightarrow> vec3 \<times> nat \<Rightarrow> nat \<times> Boid \<Rightarrow> vec3 \<times> nat" where
  "separate_step sys i boid acc other =
     (if fst other = i then acc
      else
        (let distance = distanceTo (position boid) (position (snd other))
         in if distance > 0 \<and> distance < fc_separationRadius (config sys) then
              (let diff = divideScalar (normalize (subVectors (position boid) (position (snd other)))) distance
               in (add_v (fst acc) diff, snd acc + 1))
            else acc))"

definition separate :: "FlockingSystem \<Rightarrow> nat \<Rightarrow> vec3" where
  "separate sys i =
     (let boid = boids sys ! i;
          acc = foldl (separate_step sys i boid) (zero_v, 0) (enumerate 0 (boids sys));
          steer = fst acc; count = snd acc
      in if count > 0 then
           clampLength
             (subVectors
                (multiplyScalar (normalize (divideScalar steer (real count))) (fc_maxSpeed (config sys)))
                (velocity boid))
             0 (fc_maxForce (config sys))
         else steer)"

definition align_step ::
  "FlockingSystem \<Rightarrow> nat \<Rightarrow> Boid \<Rightarrow> vec3 \<times> nat \<Rightarrow> nat \<times> Boid \<Rightarrow> vec3 \<times> nat" where
  "align_step sys i boid acc other =
     (if fst other = i then acc
      else
        (let distance = distanceTo (position boid) (position (snd other))
         in if distance > 0 \<and> distance < fc_neighborRadius (config sys) then
              (add_v (fst acc) (velocity (snd other)), snd acc + 1)
            else acc))"

definition align :: "FlockingSystem \<Rightarrow> nat \<Rightarrow> vec3" where
  "align sys i =
     (let boid = boids sys ! i;
          acc = foldl (align_step sys i boid) (zero_v, 0) (enumerate 0 (boids sys));
          sum = fst acc; count = snd acc
      in if count > 0 then
           (let sum1 = multiplyScalar (normalize (divideScalar sum (real count))) (fc_maxSpeed (config sys));
                steer = subVectors sum1 (velocity boid)
            in clampLength steer 0 (fc_maxForce (config sys)))
         else zero_v)"

definition cohesion_step ::
  "FlockingSystem \<Rightarrow> nat \<Rightarrow> Boid \<Rightarrow> vec3 \<times> nat \<Rightarrow> nat \<times> Boid \<Rightarrow> vec3 \<times> nat" where
  "cohesion_step sys i boid acc other =
     (if fst other = i then acc
      else
        (let distance = distanceTo (position boid) (position (snd other))
         in if distance > 0 \<and> distance < fc_neighborRadius (config sys) then
              (add_v (fst acc) (position (snd other)), snd acc + 1)
            else acc))"

definition cohesion :: "FlockingSystem \<Rightarrow> nat \<Rightarrow> vec3" where
  "cohesion sys i =
     (let boid = boids sys ! i;
          acc = foldl (cohesion_step sys i boid) (zero_v, 0) (enumerate 0 (boids sys));
          sum = fst acc; count = snd acc
      in if count > 0 then
           (let sum1 = divideScalar sum (real count);
                desired = multiplyScalar (normalize (subVectors sum1 (position boid))) (fc_maxSpeed (config sys));
                steer = subVectors desired (velocity boid)
            in clampLength steer 0 (fc_maxForce (config sys)))
         else zero_v)"

definition boundaries :: "FlockingSystem \<Rightarrow> Boid \<Rightarrow> vec3" where
  "boundaries sys boid =
     (let margin = 5.0;
          bounds = fc_bounds (config sys); center = fc_center (config sys);
          planeHeight = fc_planeHeight (config sys);
          steer_x = (if vx (position boid) < vx center - width bounds / 2 + margin then 1
                     else if vx (position boid) > vx center + width bounds / 2 - margin then - 1
                     else 0);
          steer_z = (if vz (position boid) < vz center - depth bounds / 2 + margin then 1
                     else if vz (position boid) > vz center + depth bounds / 2 - margin then - 1
                     else 0);
          steer_y = (if vy (position boid) < planeHeight - margin then 1
                     else if vy (position boid) > planeHeight + margin then - 1
                     else 0);
          steer = \<lparr>vx = steer_x, vy = steer_y, vz = steer_z\<rparr>
      in if length_v steer > 0 then
           clampLength
             (subVectors (multiplyScalar (normalize steer) (fc_maxSpeed (config sys))) (velocity boid))
             0 (fc_maxForce (config sys))
         else steer)"

text \<open>The four \<open>applyForce\<close> calls of \<open>update\<close> on the boid of index \<open>i\<close>.\<close>

definition apply_forces :: "FlockingSystem \<Rightarrow> nat \<Rightarrow> Boid" where
  "apply_forces sys i =
     (let boid = boids sys ! i;
          sep = multiplyScalar (separate sys i) (fc_separation (config sys));
          ali = multiplyScalar (align sys i) (fc_alignment (config sys));
          coh = multiplyScalar (cohesion sys i) (fc_cohesion (config sys));
          bounds = multiplyScalar (boundaries sys boid) 1.0
      in applyForce (applyForce (applyForce (applyForce boid sep) ali) coh) bounds)"

text \<open>
  One pass of the loop of \<open>update\<close>: the boid is changed in place, so the boids that
  follow see its new position and velocity.
\<close>

definition update_boid :: "real \<Rightarrow> FlockingSystem \<Rightarrow> nat \<Rightarrow> FlockingSystem" where
  "update_boid deltaTime sys i =
     sys\<lparr>boids := (boids sys)[i := Boid_update deltaTime (apply_forces sys i)]\<rparr>"

definition update :: "FlockingSystem \<Rightarrow> real \<Rightarrow> FlockingSystem" where
  "update sys deltaTime = foldl (update_boid deltaTime) sys [0..<length (boids sys)]"

text \<open>The agent is inside every margin: none of the six tests of \<open>boundaries\<close> holds.\<close>

definition inside_margins :: "FlockingSystem \<Rightarrow> Boid \<Rightarrow> bool" where
  "inside_margins sys boid =
     (let bounds = fc_bounds (config sys); center = fc_center (config sys);
          planeHeight = fc_planeHeight (config sys)
      in \<not> vx (position boid) < vx center - width bounds / 2 + 5
         \<and> \<not> vx (position boid) > vx center + width bounds / 2 - 5
         \<and> \<not> vz (position boid) < vz center - depth bounds / 2 + 5
         \<and> \<not> vz (position boid) > vz center + depth bounds / 2 - 5
         \<and> \<not> vy (position boid) < planeHeight - 5
         \<and> \<not> vy (position boid) > planeHeight + 5)"

text \<open>The constructor argument \<open>{}\<close>: every key absent.\<close>

definition no_options :: FlockOptions where
  "no_options =
     \<lparr>opt_separation = None, opt_alignment = None, opt_cohesion = None,
      opt_separationRadius = None, opt_neighborRadius = None, opt_maxSpeed = None,
      opt_maxForce = None, opt_bounds = None, opt_center = None, opt_planeHeight = None\<rparr>"

section \<open>Properties of the L-system engine\<close>

text \<open>
  C3. For every rule set, axiom and iteration count, calling \<open>iterate\<close> (the spec's
  \<open>expand\<close>) twice on the same engine returns the same string both times, and leaves the
  engine in the same state: each call restarts from the stored axiom, not from the string
  of the call before.
\<close>

theorem expand_idempotent:
  "fst (iterate (snd (iterate ls))) = fst (iterate ls)
   \<and> snd (iterate (snd (iterate ls))) = snd (iterate ls)
   \<and> fst (iterate (snd (iterate (new_LSystem a r n)))) = fst (iterate (new_LSystem a r n))"
  by (simp add: iterate_def Let_def)

text \<open>
  C8. With the axiom \<open>F\<close> and the single rule \<open>F \<rightarrow> F[+F]F[-F]F\<close> (the default plant rules),
  one iteration returns exactly \<open>F[+F]F[-F]F\<close> and zero iterations return exactly \<open>F\<close>.
\<close>

theorem growth_example:
  "fst (iterate (new_LSystem ''F'' [CHR ''F'' \<mapsto> ''F[+F]F[-F]F''] (Some 1))) = ''F[+F]F[-F]F''
   \<and> fst (iterate (new_LSystem ''F'' [CHR ''F'' \<mapsto> ''F[+F]F[-F]F''] (Some 0))) = ''F''
   \<and> fst (iterate (new_LSystem defaultAxiom defaultPlantRules (Some 1))) = ''F[+F]F[-F]F''
   \<and> fst (iterate (new_LSystem defaultAxiom defaultPlantRules (Some 0))) = ''F''"
  by (simp add: iterate_def new_LSystem_def defaultAxiom_def defaultPlantRules_def
      rule_truthy_def Let_def)

section \<open>Properties of the turtle interpreter\<close>

text \<open>
  C6. Interpreting \<open>F[+F]F\<close>, for every angle and step size: the pose after the \<open>]\<close> is the
  pose that was saved at the \<open>[\<close> (the end of the first segment, heading 0), the branch
  stack is empty again, and the segment drawn after the \<open>]\<close> starts where the first one
  ended; both top-level segments lie on the line \<open>x = 0, z = 0\<close> of the original heading.
\<close>

theorem branch_restore:
  "parseLSystemString ''F[+F]F'' angle stepSize =
     [Line \<lparr>vx = 0, vy = 0, vz = 0\<rparr> \<lparr>vx = 0, vy = stepSize, vz = 0\<rparr>,
      Line \<lparr>vx = 0, vy = stepSize, vz = 0\<rparr>
           \<lparr>vx = sin angle * stepSize, vy = stepSize + cos angle * stepSize, vz = 0\<rparr>,
      Line \<lparr>vx = 0, vy = stepSize, vz = 0\<rparr> \<lparr>vx = 0, vy = stepSize + stepSize, vz = 0\<rparr>]
   \<and> pose (turtle_run angle stepSize turtle_init ''F[+F]'')
       = pose (turtle_run angle stepSize turtle_init ''F['')
   \<and> pose (turtle_run angle stepSize turtle_init ''F['') = (0, stepSize, 0, 0)
   \<and> stack (turtle_run angle stepSize turtle_init ''F[+F]'') = []"
  by (simp add: parseLSystemString_def turtle_init_def turtle_step_def pose_def Let_def)

text \<open>
  C9. The interpreter is a total function with no failing branch. A symbol other than
  \<open>F\<close>, \<open>G\<close>, \<open>+\<close>, \<open>-\<close>, \<open>|\<close>, \<open>[\<close>, \<open>]\<close> (the reserved pitch and roll symbols among them)
  leaves the whole turtle state, output included, as it was; a \<open>]\<close> on an empty branch
  stack does the same; so the output of any string is the output of the string with every
  such symbol removed.
\<close>

theorem unknown_symbol_ignored:
  "(c \<notin> acting_symbols \<longrightarrow> turtle_step angle stepSize t c = t)
   \<and> (stack t = [] \<longrightarrow> turtle_step angle stepSize t (CHR '']'') = t)
   \<and> parseLSystemString lstring angle stepSize
       = parseLSystemString (filter (\<lambda>c. c \<in> acting_symbols) lstring) angle stepSize"
proof -
  have step: "turtle_step angle stepSize u d = u" if "d \<notin> acting_symbols" for u d
    using that by (simp add: turtle_step_def acting_symbols_def)
  have run: "turtle_run angle stepSize u xs
      = turtle_run angle stepSize u (filter (\<lambda>c. c \<in> acting_symbols) xs)" for u xs
    by (induction xs arbitrary: u) (simp_all add: step)
  show ?thesis
    using step [of c t] run [of turtle_init lstring]
    by (simp add: parseLSystemString_def turtle_step_def)
qed

theorem unknown_symbol_ignored_witness:
  "CHR ''X'' \<notin> acting_symbols
   \<and> turtle_step 1 1 turtle_init (CHR ''X'') = turtle_init
   \<and> stack turtle_init = []
   \<and> turtle_step 1 1 turtle_init (CHR '']'') = turtle_init
   \<and> CHR ''&'' \<notin> acting_symbols
   \<and> turtle_step 1 1 turtle_init (CHR ''&'') = turtle_init"
  using unknown_symbol_ignored [of "CHR ''X''" 1 1 turtle_init "''X''"]
    unknown_symbol_ignored [of "CHR ''&''" 1 1 turtle_init "''&''"]
  by (simp add: acting_symbols_def turtle_init_def)

section \<open>Properties of the building generator\<close>

subsection \<open>Levels and stairs\<close>

lemma length_generateRoomPositions:
  "length (generateRoomPositions g levelIndex) = nat \<lceil>roomsPerLevel g\<rceil>"
  by (simp add: generateRoomPositions_def grid_positions_def linear_positions_def
      radial_positions_def default_positions_def Let_def)

lemma length_rooms_generateLevel:
  "length (rooms (generateLevel g levelIndex)) = nat \<lceil>roomsPerLevel g\<rceil>"
  by (simp add: generateLevel_def Let_def length_generateRoomPositions)

lemma rooms_nonempty:
  assumes "0 < roomsPerLevel g"
  shows "rooms (generateLevel g k) \<noteq> []"
proof -
  from assms have "0 < nat \<lceil>roomsPerLevel g\<rceil>" by simp
  with length_rooms_generateLevel [of g k] show ?thesis by auto
qed

lemma rooms_empty:
  assumes "roomsPerLevel g \<le> 0"
  shows "rooms (generateLevel g k) = []"
proof -
  from assms have "nat \<lceil>roomsPerLevel g\<rceil> = 0" by simp
  with length_rooms_generateLevel [of g k] show ?thesis by simp
qed

lemma level_fields_generateLevel:
  "level_index (generateLevel g levelIndex) = levelIndex"
  "level_y (generateLevel g levelIndex) = real levelIndex * levelHeight g"
  by (simp_all add: generateLevel_def Let_def)

lemma generateStairs_nonempty:
  assumes "rooms levelData \<noteq> []"
  shows "generateStairs g levelIndex levelData =
     Inr \<lparr>stair_x = room_x (hd (rooms levelData)), stair_y = level_y levelData,
          stair_z = room_z (hd (rooms levelData)),
          stair_width = 1, stair_depth = 1, stair_height = levelHeight g,
          stair_level = levelIndex\<rparr>"
  using assms by (cases "rooms levelData") (simp_all add: generateStairs_def)

lemma generateStairs_empty:
  "rooms levelData = [] \<Longrightarrow> generateStairs g levelIndex levelData = Inl TypeError"
  by (simp add: generateStairs_def)

text \<open>With at least one room per level every stair finds its first room.\<close>

lemma generate_loop_result:
  assumes "0 < roomsPerLevel g"
  shows "generate_loop g ks b =
     Inr \<lparr>building_levels = building_levels b @ map (generateLevel g) ks,
          stairs = stairs b @
            map (\<lambda>k. projr (generateStairs g k (generateLevel g k)))
              (filter (\<lambda>k. hasStairs g \<and> real k < levels g - 1) ks)\<rparr>"
proof (induction ks arbitrary: b)
  case Nil
  show ?case by simp
next
  case (Cons k ks)
  show ?case
    by (simp add: Let_def Cons.IH generateStairs_nonempty [OF rooms_nonempty [OF assms]])
qed

lemma filter_below_upt:
  "filter (\<lambda>k. real k < l - 1) [0..<nat \<lceil>l\<rceil>] = [0..<nat \<lceil>l\<rceil> - 1]"
proof -
  have eq: "(real k < l - 1) = (k < nat \<lceil>l\<rceil> - 1)" for k
  proof -
    have "(real k < l - 1) = (of_int (int k + 1) < l)" by auto
    also have "\<dots> = (int k + 1 < \<lceil>l\<rceil>)" by (simp only: less_ceiling_iff)
    also have "\<dots> = (k < nat \<lceil>l\<rceil> - 1)" by linarith
    finally show ?thesis .
  qed
  have "filter (\<lambda>k. k < c) [0..<m] = [0..<min m c]" for m c :: nat
  proof (induction m)
    case 0
    show ?case by simp
  next
    case (Suc m)
    show ?case
    proof (cases "m < c")
      case True
      then show ?thesis using Suc by (simp add: min_def)
    next
      case False
      then have "min m c = c" "min (Suc m) c = c" by simp_all
      then show ?thesis using Suc False by simp
    qed
  qed
  from this [of "nat \<lceil>l\<rceil> - 1" "nat \<lceil>l\<rceil>"] show ?thesis by (simp add: eq)
qed

lemma stairs_filter:
  "filter (\<lambda>k. hasStairs g \<and> real k < levels g - 1) [0..<nat \<lceil>levels g\<rceil>]
     = (if hasStairs g then [0..<nat \<lceil>levels g\<rceil> - 1] else [])"
  using filter_below_upt [of "levels g"] by simp

lemma generate_result:
  assumes "0 < roomsPerLevel g"
  shows "generate g =
     Inr \<lparr>building_levels = map (generateLevel g) [0..<nat \<lceil>levels g\<rceil>],
          stairs = (if hasStairs g
             then map (\<lambda>k. projr (generateStairs g k (generateLevel g k)))
                   [0..<nat \<lceil>levels g\<rceil> - 1]
             else [])\<rparr>"
  by (simp add: generate_def generate_loop_result [OF assms] stairs_filter)

text \<open>Without stairs \<open>generateStairs\<close> is never called, whatever the rooms are.\<close>

lemma generate_loop_no_stairs:
  assumes "\<not> hasStairs g"
  shows "generate_loop g ks b =
     Inr \<lparr>building_levels = building_levels b @ map (generateLevel g) ks, stairs = stairs b\<rparr>"
  using assms by (induction ks arbitrary: b) (simp_all add: Let_def)

lemma generate_no_stairs:
  assumes "\<not> hasStairs g"
  shows "generate g =
     Inr \<lparr>building_levels = map (generateLevel g) [0..<nat \<lceil>levels g\<rceil>], stairs = []\<rparr>"
  by (simp add: generate_def generate_loop_no_stairs [OF assms])

text \<open>
  With no room per level, stairs enabled and more than one level, the first pass of the
  loop calls \<open>generateStairs\<close> on an empty room list, which throws.
\<close>

lemma generate_throws:
  assumes "roomsPerLevel g \<le> 0" and "hasStairs g" and "1 < levels g"
  shows "generate g = Inl TypeError"
proof -
  from assms(3) have "0 < nat \<lceil>levels g\<rceil>" by simp
  then have u: "[0..<nat \<lceil>levels g\<rceil>] = 0 # [Suc 0..<nat \<lceil>levels g\<rceil>]"
    by (simp add: upt_conv_Cons)
  show ?thesis
    unfolding generate_def u
    using assms(2,3)
    by (simp add: Let_def generateStairs_empty [OF rooms_empty [OF assms(1)]])
qed

text \<open>
  The constructor yields a positive room count exactly when the key is absent, 0 (replaced
  by the default) or positive; a negative count is truthy and is kept.
\<close>

lemma roomsPerLevel_new_pos_iff:
  "0 < roomsPerLevel (new_BuildingGrammar cfg)
     \<longleftrightarrow> (case cfg_roomsPerLevel cfg of None \<Rightarrow> True | Some n \<Rightarrow> 0 \<le> n)"
  by (auto simp: new_BuildingGrammar_def num_or_def split: option.splits)

lemma stair_of_level:
  assumes "0 < roomsPerLevel g"
  shows "projr (generateStairs g k (generateLevel g k)) =
     \<lparr>stair_x = room_x (hd (rooms (generateLevel g k))), stair_y = level_y (generateLevel g k),
      stair_z = room_z (hd (rooms (generateLevel g k))),
      stair_width = 1, stair_depth = 1, stair_height = levelHeight g, stair_level = k\<rparr>"
  by (simp add: generateStairs_nonempty [OF rooms_nonempty [OF assms]])

lemma upt_3: "[0..<3] = [0, 1, 2::nat]"
  by (simp add: upt_rec)

lemma upt_2: "[0..<2] = [0, 1::nat]"
  by (simp add: upt_rec)

text \<open>
  C10 claims that every configuration whose \<open>hasStairs\<close> is not \<open>false\<close> results in stairs
  being generated. Two configurations with an absent \<open>hasStairs\<close> show otherwise: with
  \<open>levels = 1\<close> the flag is set and \<open>generate\<close> returns the single level and no stair, as
  there is no level transition; with \<open>roomsPerLevel = -1\<close> the levels are empty and
  \<open>generate\<close> throws at the first stair.
\<close>

theorem stairs_enabled_counterexample:
  "hasStairs (new_BuildingGrammar
      \<lparr>cfg_levels = Some 1, cfg_roomsPerLevel = None, cfg_roomSize = None,
       cfg_levelHeight = None, cfg_wallThickness = None, cfg_hasStairs = JUndefined,
       cfg_roomLayout = None\<rparr>)
   \<and> generate (new_BuildingGrammar
      \<lparr>cfg_levels = Some 1, cfg_roomsPerLevel = None, cfg_roomSize = None,
       cfg_levelHeight = None, cfg_wallThickness = None, cfg_hasStairs = JUndefined,
       cfg_roomLayout = None\<rparr>)
     = Inr \<lparr>building_levels = [generateLevel (new_BuildingGrammar
          \<lparr>cfg_levels = Some 1, cfg_roomsPerLevel = None, cfg_roomSize = None,
           cfg_levelHeight = None, cfg_wallThickness = None, cfg_hasStairs = JUndefined,
           cfg_roomLayout = None\<rparr>) 0],
        stairs = []\<rparr>
   \<and> hasStairs (new_BuildingGrammar
      \<lparr>cfg_levels = None, cfg_roomsPerLevel = Some (- 1), cfg_roomSize = None,
       cfg_levelHeight = None, cfg_wallThickness = None, cfg_hasStairs = JUndefined,
       cfg_roomLayout = None\<rparr>)
   \<and> generate (new_BuildingGrammar
      \<lparr>cfg_levels = None, cfg_roomsPerLevel = Some (- 1), cfg_roomSize = None,
       cfg_levelHeight = None, cfg_wallThickness = None, cfg_hasStairs = JUndefined,
       cfg_roomLayout = None\<rparr>) = Inl TypeError"
proof -
  let ?g1 = "new_BuildingGrammar
      \<lparr>cfg_levels = Some 1, cfg_roomsPerLevel = None, cfg_roomSize = None,
       cfg_levelHeight = None, cfg_wallThickness = None, cfg_hasStairs = JUndefined,
       cfg_roomLayout = None\<rparr>"
  let ?g2 = "new_BuildingGrammar
      \<lparr>cfg_levels = None, cfg_roomsPerLevel = Some (- 1), cfg_roomSize = None,
       cfg_levelHeight = None, cfg_wallThickness = None, cfg_hasStairs = JUndefined,
       cfg_roomLayout = None\<rparr>"
  have g1: "hasStairs ?g1" "levels ?g1 = 1" "0 < roomsPerLevel ?g1"
    by (simp_all add: new_BuildingGrammar_def num_or_def)
  have g2: "hasStairs ?g2" "1 < levels ?g2" "roomsPerLevel ?g2 \<le> 0"
    by (simp_all add: new_BuildingGrammar_def num_or_def)
  have "generate ?g1 = Inr \<lparr>building_levels = [generateLevel ?g1 0], stairs = []\<rparr>"
    by (simp add: generate_result [OF g1(3)] g1(2))
  moreover have "generate ?g2 = Inl TypeError"
    by (rule generate_throws [OF g2(3) g2(1) g2(2)])
  ultimately show ?thesis using g1(1) g2(1) by (intro conjI)
qed

text \<open>
  C10, as the code has it. The constructor enables stairs for every configuration whose
  \<open>hasStairs\<close> is not exactly the boolean \<open>false\<close> (an absent key, 0 and \<open>null\<close> among them)
  and disables them only for \<open>false\<close>. With a \<open>roomsPerLevel\<close> that is absent or not negative, \<open>generate\<close>
  then returns one stair for each level transition, \<open>\<lceil>levels\<rceil> - 1\<close> of them, and none when
  \<open>hasStairs\<close> is \<open>false\<close>: with more than one level, stairs are generated exactly when
  \<open>hasStairs\<close> is not \<open>false\<close>. With \<open>hasStairs = false\<close> no stair is generated whatever the
  room count is.
\<close>

theorem stairs_enabled_unless_false:
  "hasStairs (new_BuildingGrammar cfg) = (cfg_hasStairs cfg \<noteq> JBool False)
   \<and> hasStairs (new_BuildingGrammar (cfg\<lparr>cfg_hasStairs := JUndefined\<rparr>))
   \<and> hasStairs (new_BuildingGrammar (cfg\<lparr>cfg_hasStairs := JNum 0\<rparr>))
   \<and> hasStairs (new_BuildingGrammar (cfg\<lparr>cfg_hasStairs := JNull\<rparr>))
   \<and> \<not> hasStairs (new_BuildingGrammar (cfg\<lparr>cfg_hasStairs := JBool False\<rparr>))
   \<and> ((case cfg_roomsPerLevel cfg of None \<Rightarrow> True | Some n \<Rightarrow> 0 \<le> n) \<longrightarrow>
        (\<exists>b. generate (new_BuildingGrammar cfg) = Inr b
          \<and> length (stairs b) =
              (if cfg_hasStairs cfg = JBool False then 0
               else nat \<lceil>levels (new_BuildingGrammar cfg)\<rceil> - 1)))
   \<and> ((case cfg_roomsPerLevel cfg of None \<Rightarrow> True | Some n \<Rightarrow> 0 \<le> n)
        \<and> 1 < levels (new_BuildingGrammar cfg) \<longrightarrow>
        (\<exists>b. generate (new_BuildingGrammar cfg) = Inr b
          \<and> (stairs b \<noteq> [] \<longleftrightarrow> cfg_hasStairs cfg \<noteq> JBool False)))
   \<and> (cfg_hasStairs cfg = JBool False \<longrightarrow>
        (\<exists>b. generate (new_BuildingGrammar cfg) = Inr b \<and> stairs b = []))"
proof -
  let ?g = "new_BuildingGrammar cfg"
  have h: "hasStairs (new_BuildingGrammar c) = (cfg_hasStairs c \<noteq> JBool False)" for c
    by (simp add: new_BuildingGrammar_def)
  have a: "\<exists>b. generate ?g = Inr b
          \<and> length (stairs b) =
              (if cfg_hasStairs cfg = JBool False then 0 else nat \<lceil>levels ?g\<rceil> - 1)"
    if "0 < roomsPerLevel ?g"
    by (simp add: generate_result [OF that] h)
  have b: "\<exists>b. generate ?g = Inr b \<and> (stairs b \<noteq> [] \<longleftrightarrow> cfg_hasStairs cfg \<noteq> JBool False)"
    if "0 < roomsPerLevel ?g" and "1 < levels ?g"
  proof -
    from that(2) have "1 < \<lceil>levels ?g\<rceil>" by (simp add: less_ceiling_iff)
    then have "0 < nat \<lceil>levels ?g\<rceil> - 1" by linarith
    then show ?thesis by (simp add: generate_result [OF that(1)] h)
  qed
  have c: "\<exists>b. generate ?g = Inr b \<and> stairs b = []" if "cfg_hasStairs cfg = JBool False"
  proof -
    from that have "\<not> hasStairs ?g" by (simp add: h)
    from generate_no_stairs [OF this] show ?thesis by simp
  qed
  from a b c show ?thesis by (simp add: h roomsPerLevel_new_pos_iff [symmetric])
qed

theorem stairs_enabled_unless_false_witness:
  "hasStairs (new_BuildingGrammar
      \<lparr>cfg_levels = None, cfg_roomsPerLevel = None, cfg_roomSize = None,
       cfg_levelHeight = None, cfg_wallThickness = None, cfg_hasStairs = JUndefined,
       cfg_roomLayout = None\<rparr>)
   \<and> cfg_roomsPerLevel
      \<lparr>cfg_levels = None, cfg_roomsPerLevel = None, cfg_roomSize = None,
       cfg_levelHeight = None, cfg_wallThickness = None, cfg_hasStairs = JUndefined,
       cfg_roomLayout = None\<rparr> = None
   \<and> 1 < levels (new_BuildingGrammar
      \<lparr>cfg_levels = None, cfg_roomsPerLevel = None, cfg_roomSize = None,
       cfg_levelHeight = None, cfg_wallThickness = None, cfg_hasStairs = JUndefined,
       cfg_roomLayout = None\<rparr>)
   \<and> (\<exists>b. generate (new_BuildingGrammar
         \<lparr>cfg_levels = None, cfg_roomsPerLevel = None, cfg_roomSize = None,
          cfg_levelHeight = None, cfg_wallThickness = None, cfg_hasStairs = JUndefined,
          cfg_roomLayout = None\<rparr>) = Inr b \<and> length (stairs b) = 2 \<and> stairs b \<noteq> [])
   \<and> (\<exists>b. generate (new_BuildingGrammar
         \<lparr>cfg_levels = None, cfg_roomsPerLevel = Some (- 1), cfg_roomSize = None,
          cfg_levelHeight = None, cfg_wallThickness = None, cfg_hasStairs = JBool False,
          cfg_roomLayout = None\<rparr>) = Inr b \<and> stairs b = [])"
proof -
  let ?c = "\<lparr>cfg_levels = None, cfg_roomsPerLevel = None, cfg_roomSize = None,
       cfg_levelHeight = None, cfg_wallThickness = None, cfg_hasStairs = JUndefined,
       cfg_roomLayout = None\<rparr>"
  let ?d = "\<lparr>cfg_levels = None, cfg_roomsPerLevel = Some (- 1), cfg_roomSize = None,
       cfg_levelHeight = None, cfg_wallThickness = None, cfg_hasStairs = JBool False,
       cfg_roomLayout = None\<rparr>"
  have r: "cfg_roomsPerLevel ?c = None"
    and l: "levels (new_BuildingGrammar ?c) = 3"
    by (simp_all add: new_BuildingGrammar_def num_or_def)
  from stairs_enabled_unless_false [of ?c] r l
  have 1: "hasStairs (new_BuildingGrammar ?c)"
    and 2: "\<exists>b. generate (new_BuildingGrammar ?c) = Inr b \<and> length (stairs b) = 2"
    by simp_all
  from 2 have 3: "\<exists>b. generate (new_BuildingGrammar ?c) = Inr b \<and> length (stairs b) = 2
      \<and> stairs b \<noteq> []"
    by auto
  from stairs_enabled_unless_false [of ?d]
  have 4: "\<exists>b. generate (new_BuildingGrammar ?d) = Inr b \<and> stairs b = []"
    by simp
  from 1 r l 3 4 show ?thesis by simp
qed

text \<open>
  C4 claims two stairs for every configuration with \<open>levels = 3\<close> and \<open>hasStairs = true\<close>.
  With \<open>roomsPerLevel = -1\<close>, a truthy value that the constructor keeps, no room is built and
  \<open>generate\<close> throws a \<open>TypeError\<close> at the stair of level 0.
\<close>

theorem three_levels_counterexample:
  "generate (new_BuildingGrammar
      \<lparr>cfg_levels = Some 3, cfg_roomsPerLevel = Some (- 1), cfg_roomSize = None,
       cfg_levelHeight = None, cfg_wallThickness = None, cfg_hasStairs = JBool True,
       cfg_roomLayout = None\<rparr>) = Inl TypeError"
proof -
  let ?g = "new_BuildingGrammar
      \<lparr>cfg_levels = Some 3, cfg_roomsPerLevel = Some (- 1), cfg_roomSize = None,
       cfg_levelHeight = None, cfg_wallThickness = None, cfg_hasStairs = JBool True,
       cfg_roomLayout = None\<rparr>"
  have g: "hasStairs ?g" "1 < levels ?g" "roomsPerLevel ?g \<le> 0"
    by (simp_all add: new_BuildingGrammar_def num_or_def)
  show ?thesis by (rule generate_throws [OF g(3) g(1) g(2)])
qed

text \<open>
  C4, as the code has it. For a configuration with \<open>levels = 3\<close>, \<open>hasStairs = true\<close> and a
  \<open>roomsPerLevel\<close> that is absent or not negative, \<open>generate\<close> returns three levels and
  exactly two stairs, stair \<open>i\<close> leaving level \<open>i\<close> for \<open>i = 0, 1\<close>; its \<open>(x, z)\<close> are those of
  the first room of that level and its \<open>y\<close> is that level's \<open>y\<close>.
\<close>

theorem three_levels_two_stairs:
  assumes "cfg_levels cfg = Some 3" and "cfg_hasStairs cfg = JBool True"
    and "case cfg_roomsPerLevel cfg of None \<Rightarrow> True | Some n \<Rightarrow> 0 \<le> n"
  shows "\<exists>b. generate (new_BuildingGrammar cfg) = Inr b
     \<and> length (building_levels b) = 3 \<and> length (stairs b) = 2
     \<and> (\<forall>i<2. level_index (building_levels b ! i) = i
           \<and> rooms (building_levels b ! i) \<noteq> []
           \<and> stair_level (stairs b ! i) = i
           \<and> stair_x (stairs b ! i) = room_x (rooms (building_levels b ! i) ! 0)
           \<and> stair_z (stairs b ! i) = room_z (rooms (building_levels b ! i) ! 0)
           \<and> stair_y (stairs b ! i) = level_y (building_levels b ! i))"
proof -
  let ?g = "new_BuildingGrammar cfg"
  have l: "levels ?g = 3" and s: "hasStairs ?g"
    using assms by (simp_all add: new_BuildingGrammar_def num_or_def)
  have pos: "0 < roomsPerLevel ?g"
    using assms(3) by (simp add: roomsPerLevel_new_pos_iff)
  have ne: "rooms (generateLevel ?g k) \<noteq> []" for k
    by (rule rooms_nonempty [OF pos])
  have hd0: "rooms (generateLevel ?g k) ! 0 = hd (rooms (generateLevel ?g k))" for k
    using ne [of k] by (simp add: hd_conv_nth)
  have two: "i < 2 \<longleftrightarrow> i = 0 \<or> i = 1" for i :: nat by auto
  show ?thesis
    by (simp add: generate_result [OF pos] l s upt_3 upt_2 two stair_of_level [OF pos]
        level_fields_generateLevel ne hd0 numeral_2_eq_2 [symmetric])
qed

theorem three_levels_two_stairs_witness:
  "cfg_levels \<lparr>cfg_levels = Some 3, cfg_roomsPerLevel = Some 2, cfg_roomSize = None,
       cfg_levelHeight = None, cfg_wallThickness = None, cfg_hasStairs = JBool True,
       cfg_roomLayout = None\<rparr> = Some 3
   \<and> cfg_hasStairs \<lparr>cfg_levels = Some 3, cfg_roomsPerLevel = Some 2, cfg_roomSize = None,
       cfg_levelHeight = None, cfg_wallThickness = None, cfg_hasStairs = JBool True,
       cfg_roomLayout = None\<rparr> = JBool True
   \<and> cfg_roomsPerLevel \<lparr>cfg_levels = Some 3, cfg_roomsPerLevel = Some 2, cfg_roomSize = None,
       cfg_levelHeight = None, cfg_wallThickness = None, cfg_hasStairs = JBool True,
       cfg_roomLayout = None\<rparr> = Some 2
   \<and> (\<exists>b. generate (new_BuildingGrammar
         \<lparr>cfg_levels = Some 3, cfg_roomsPerLevel = Some 2, cfg_roomSize = None,
          cfg_levelHeight = None, cfg_wallThickness = None, cfg_hasStairs = JBool True,
          cfg_roomLayout = None\<rparr>) = Inr b
        \<and> length (building_levels b) = 3 \<and> length (stairs b) = 2
        \<and> stair_level (stairs b ! 0) = 0 \<and> stair_level (stairs b ! 1) = 1
        \<and> stair_x (stairs b ! 1) = room_x (rooms (building_levels b ! 1) ! 0)
        \<and> stair_z (stairs b ! 1) = room_z (rooms (building_levels b ! 1) ! 0)
        \<and> stair_y (stairs b ! 1) = level_y (building_levels b ! 1))"
  using three_levels_two_stairs [of "\<lparr>cfg_levels = Some 3, cfg_roomsPerLevel = Some 2,
       cfg_roomSize = None, cfg_levelHeight = None, cfg_wallThickness = None,
       cfg_hasStairs = JBool True, cfg_roomLayout = None\<rparr>"]
  by fastforce

subsection \<open>Room connectivity\<close>

lemma digit_char_inj:
  assumes "a < 10" and "b < 10" and "digit_char a = digit_char b"
  shows "a = b"
proof -
  have A: "a \<in> {0, 1, 2, 3, 4, 5, 6, 7, 8, 9}" using assms(1) by auto
  have B: "b \<in> {0, 1, 2, 3, 4, 5, 6, 7, 8, 9}" using assms(2) by auto
  show ?thesis using A B assms(3) by (auto simp: digit_char_def)
qed

lemma length_string_of_nat: "0 < length (string_of_nat n)"
  by (subst string_of_nat.simps) simp

lemma string_of_nat_inj: "string_of_nat n = string_of_nat m \<Longrightarrow> n = m"
proof (induction n arbitrary: m rule: string_of_nat.induct)
  case (1 n)
  show ?case
  proof (cases "n < 10")
    case n: True
    show ?thesis
    proof (cases "m < 10")
      case True
      with n "1.prems" show ?thesis
        by (simp add: string_of_nat.simps [of n] string_of_nat.simps [of m] digit_char_inj)
    next
      case False
      with n "1.prems" length_string_of_nat [of "m div 10"] show ?thesis
        by (simp add: string_of_nat.simps [of n] string_of_nat.simps [of m])
    qed
  next
    case n: False
    show ?thesis
    proof (cases "m < 10")
      case True
      with n "1.prems" length_string_of_nat [of "n div 10"] show ?thesis
        by (simp add: string_of_nat.simps [of n] string_of_nat.simps [of m])
    next
      case False
      with n "1.prems" have e: "string_of_nat (n div 10) = string_of_nat (m div 10)"
        and d: "digit_char (n mod 10) = digit_char (m mod 10)"
        by (simp_all add: string_of_nat.simps [of n] string_of_nat.simps [of m])
      from "1.IH" [OF n e] have q: "n div 10 = m div 10" .
      from d have r: "n mod 10 = m mod 10" by (intro digit_char_inj) simp_all
      from q r show ?thesis by (metis div_mult_mod_eq)
    qed
  qed
qed

lemma room_name_inj: "room_name l i = room_name l j \<Longrightarrow> i = j"
  by (simp add: room_name_def string_of_nat_inj)

lemma connect_step_targets:
  "conn_to ` set (connect_step g l i pos cs (j, p)) =
     (if j \<noteq> i \<and> sqrt ((px pos - px p)\<^sup>2 + (pz pos - pz p)\<^sup>2) < roomSize g * 1.2
      then insert (room_name l j) (conn_to ` set cs) else conn_to ` set cs)"
  by (auto simp: connect_step_def Let_def list_ex_iff intro: rev_image_eqI)

lemma connect_step_distinct:
  "distinct (map conn_to cs) \<Longrightarrow> distinct (map conn_to (connect_step g l i pos cs other))"
  by (auto simp: connect_step_def Let_def list_ex_iff)

lemma connect_fold_distinct:
  "distinct (map conn_to cs) \<Longrightarrow>
   distinct (map conn_to (foldl (connect_step g l i pos) cs xs))"
  by (induction xs arbitrary: cs) (simp_all add: connect_step_distinct)

lemma connect_fold_targets:
  "conn_to ` set (foldl (connect_step g l i pos) cs xs) =
     conn_to ` set cs \<union>
     {room_name l j | j p. (j, p) \<in> set xs \<and> j \<noteq> i
        \<and> sqrt ((px pos - px p)\<^sup>2 + (pz pos - pz p)\<^sup>2) < roomSize g * 1.2}"
proof (induction xs arbitrary: cs)
  case Nil
  show ?case by simp
next
  case (Cons x xs)
  obtain j p where x: "x = (j, p)" by (cases x)
  show ?case
    unfolding x foldl_Cons Cons.IH connect_step_targets by auto
qed

lemma make_room_targets:
  "conn_to ` set (connections (make_room g l ps (i, pos))) =
     {room_name l j | j. j < length ps \<and> j \<noteq> i
        \<and> sqrt ((px pos - px (ps ! j))\<^sup>2 + (pz pos - pz (ps ! j))\<^sup>2) < roomSize g * 1.2}"
  by (auto simp: make_room_def Let_def connect_fold_targets in_set_enumerate_eq)

lemma make_room_distinct:
  "distinct (map conn_to (connections (make_room g l ps ip)))"
  by (simp add: make_room_def Let_def connect_fold_distinct)

lemma make_room_fields:
  "room_id (make_room g l ps (i, pos)) = room_name l i"
  "room_x (make_room g l ps (i, pos)) = px pos"
  "room_z (make_room g l ps (i, pos)) = pz pos"
  by (simp_all add: make_room_def Let_def)

lemma rooms_nth:
  assumes "i < length (rooms (generateLevel g l))"
  shows "rooms (generateLevel g l) ! i =
     make_room g l (generateRoomPositions g l) (i, generateRoomPositions g l ! i)"
  using assms by (simp add: generateLevel_def Let_def nth_enumerate_eq)

lemma length_rooms_positions:
  "length (rooms (generateLevel g l)) = length (generateRoomPositions g l)"
  by (simp add: generateLevel_def Let_def)

lemma level_connectivity_aux:
  fixes g l
  defines "lv \<equiv> generateLevel g l"
  shows "(\<forall>r \<in> set (rooms lv). \<forall>c \<in> set (connections r). conn_to c \<noteq> room_id r)
   \<and> (\<forall>r \<in> set (rooms lv). distinct (map conn_to (connections r)))
   \<and> (\<forall>i < length (rooms lv). \<forall>j < length (rooms lv).
        i \<noteq> j \<and> planar_distance (rooms lv ! i) (rooms lv ! j) < roomSize g * 1.2
        \<longrightarrow> room_id (rooms lv ! j) \<in> conn_to ` set (connections (rooms lv ! i)))
   \<and> (\<forall>r \<in> set (rooms lv). \<forall>c \<in> set (connections r). \<exists>r' \<in> set (rooms lv). room_id r' = conn_to c)
   \<and> distinct (map room_id (rooms lv))"
proof -
  let ?ps = "generateRoomPositions g l"
  have len: "length (rooms lv) = length ?ps"
    unfolding lv_def by (rule length_rooms_positions)
  have nth: "rooms lv ! i = make_room g l ?ps (i, ?ps ! i)" if "i < length ?ps" for i
    using that rooms_nth [of i g l] len unfolding lv_def by simp
  have mem: "\<exists>i < length ?ps. r = make_room g l ?ps (i, ?ps ! i)" if "r \<in> set (rooms lv)" for r
    using that nth len by (metis in_set_conv_nth)
  have self: "conn_to c \<noteq> room_id r" if "r \<in> set (rooms lv)" "c \<in> set (connections r)" for r c
  proof -
    from mem [OF that(1)] obtain i where i: "i < length ?ps" "r = make_room g l ?ps (i, ?ps ! i)"
      by blast
    from that(2) have "conn_to c \<in> conn_to ` set (connections r)" by simp
    then obtain j where "conn_to c = room_name l j" "j \<noteq> i"
      unfolding i(2) make_room_targets by blast
    then show ?thesis using room_name_inj [of l j i] by (auto simp: i(2) make_room_fields)
  qed
  have dist: "distinct (map conn_to (connections r))" if "r \<in> set (rooms lv)" for r
    using mem [OF that] make_room_distinct by auto
  have adj: "room_id (rooms lv ! j) \<in> conn_to ` set (connections (rooms lv ! i))"
    if "i < length (rooms lv)" "j < length (rooms lv)" "i \<noteq> j"
      "planar_distance (rooms lv ! i) (rooms lv ! j) < roomSize g * 1.2" for i j
  proof -
    have i: "i < length ?ps" and j: "j < length ?ps" using that len by simp_all
    have "sqrt ((px (?ps ! i) - px (?ps ! j))\<^sup>2 + (pz (?ps ! i) - pz (?ps ! j))\<^sup>2) < roomSize g * 1.2"
      using that(4) by (simp add: planar_distance_def nth [OF i] nth [OF j] make_room_fields)
    then have "room_name l j \<in> conn_to ` set (connections (make_room g l ?ps (i, ?ps ! i)))"
      unfolding make_room_targets using j that(3) by blast
    then show ?thesis by (simp add: nth [OF i] nth [OF j] make_room_fields)
  qed
  have tgt: "\<exists>r' \<in> set (rooms lv). room_id r' = conn_to c"
    if "r \<in> set (rooms lv)" "c \<in> set (connections r)" for r c
  proof -
    from mem [OF that(1)] obtain i where i: "i < length ?ps" "r = make_room g l ?ps (i, ?ps ! i)"
      by blast
    from that(2) have "conn_to c \<in> conn_to ` set (connections r)" by simp
    then obtain j where j: "conn_to c = room_name l j" "j < length ?ps"
      unfolding i(2) make_room_targets by blast
    have "rooms lv ! j \<in> set (rooms lv)" using j(2) len by simp
    moreover have "room_id (rooms lv ! j) = conn_to c"
      by (simp add: nth [OF j(2)] make_room_fields j(1))
    ultimately show ?thesis by blast
  qed
  have ids: "distinct (map room_id (rooms lv))"
  proof (rule iffD2 [OF distinct_conv_nth], intro allI impI)
    fix i j
    assume "i < length (map room_id (rooms lv))" "j < length (map room_id (rooms lv))" "i \<noteq> j"
    then show "map room_id (rooms lv) ! i \<noteq> map room_id (rooms lv) ! j"
      using room_name_inj [of l i j] by (auto simp: len nth make_room_fields)
  qed
  show ?thesis using self dist adj tgt ids by blast
qed

lemma generate_loop_levels:
  "generate_loop g ks b0 = Inr b \<Longrightarrow>
   set (building_levels b) \<subseteq> set (building_levels b0) \<union> generateLevel g ` set ks"
proof (induction ks arbitrary: b0)
  case Nil
  then show ?case by auto
next
  case (Cons k ks)
  show ?case
  proof (cases "hasStairs g \<and> real k < levels g - 1")
    case True
    with Cons.prems obtain st where
      "generate_loop g ks (b0\<lparr>building_levels := building_levels b0 @ [generateLevel g k],
          stairs := stairs b0 @ [st]\<rparr>) = Inr b"
      by (auto simp: Let_def split: sum.splits)
    from Cons.IH [OF this] show ?thesis by auto
  next
    case False
    with Cons.prems have
      "generate_loop g ks (b0\<lparr>building_levels := building_levels b0 @ [generateLevel g k]\<rparr>) = Inr b"
      by (auto simp: Let_def)
    from Cons.IH [OF this] show ?thesis by auto
  qed
qed

text \<open>
  C5. In every level that \<open>generate\<close> returns: no room has a connection to its own id; no
  room has two connections with the same target; for every ordered pair of distinct rooms
  whose planar distance is below \<open>roomSize * 1.2\<close> the first room has a connection to the
  second (so each such pair is connected from both sides, in particular from one); every
  connection's target is the id of a room of the same level; the ids of a level's rooms
  are pairwise different.
\<close>

theorem level_connectivity:
  assumes "generate g = Inr b" and "lv \<in> set (building_levels b)"
  shows "(\<forall>r \<in> set (rooms lv). \<forall>c \<in> set (connections r). conn_to c \<noteq> room_id r)
   \<and> (\<forall>r \<in> set (rooms lv). distinct (map conn_to (connections r)))
   \<and> (\<forall>i < length (rooms lv). \<forall>j < length (rooms lv).
        i \<noteq> j \<and> planar_distance (rooms lv ! i) (rooms lv ! j) < roomSize g * 1.2
        \<longrightarrow> room_id (rooms lv ! j) \<in> conn_to ` set (connections (rooms lv ! i)))
   \<and> (\<forall>r \<in> set (rooms lv). \<forall>c \<in> set (connections r). \<exists>r' \<in> set (rooms lv). room_id r' = conn_to c)
   \<and> distinct (map room_id (rooms lv))"
proof -
  from generate_loop_levels [of g "[0..<nat \<lceil>levels g\<rceil>]" _ b] assms
  obtain k where "lv = generateLevel g k"
    unfolding generate_def by fastforce
  then show ?thesis using level_connectivity_aux [of g k] by simp
qed

text \<open>The grid layout with 4 rooms, evaluated: its positions and the connections of room 0.\<close>

lemma sqrt_less_iff_square: "0 \<le> y \<Longrightarrow> (sqrt x < y) = (x < y\<^sup>2)"
  by (metis real_sqrt_less_iff real_sqrt_abs abs_of_nonneg)

lemma sqrt_scaled_less: "(sqrt x * 5 < 24) = (x < 576 / 25)"
  using sqrt_less_iff_square [of "24 / 5" x] by (simp add: power2_eq_square)

lemma upt_4: "[0..<4] = [0, Suc 0, Suc (Suc 0), Suc (Suc (Suc 0))]"
  by (simp add: upt_rec)

lemma string_of_small:
  "string_of_nat 0 = ''0''" "string_of_nat (Suc 0) = ''1''"
  "string_of_nat (Suc (Suc 0)) = ''2''" "string_of_nat (Suc (Suc (Suc 0))) = ''3''"
  by (simp_all add: string_of_nat.simps digit_char_def)

lemma grid_four_positions:
  "generateRoomPositions (new_BuildingGrammar grid_four_config) 0
   = [\<lparr>px = - (11 / 5), pz = - (11 / 5)\<rparr>, \<lparr>px = 11 / 5, pz = - (11 / 5)\<rparr>,
      \<lparr>px = - (11 / 5), pz = 11 / 5\<rparr>, \<lparr>px = 11 / 5, pz = 11 / 5\<rparr>]"
  by (simp add: grid_four_config_def generateRoomPositions_def grid_positions_def new_BuildingGrammar_def
      num_or_def str_or_def Let_def upt_4)

lemma grid_room_size:
  "roomSize (new_BuildingGrammar grid_four_config) = 4"
  by (simp add: grid_four_config_def new_BuildingGrammar_def num_or_def)

lemma grid_four_room0:
  "connections (make_room (new_BuildingGrammar grid_four_config) 0
     [\<lparr>px = - (11 / 5), pz = - (11 / 5)\<rparr>, \<lparr>px = 11 / 5, pz = - (11 / 5)\<rparr>,
      \<lparr>px = - (11 / 5), pz = 11 / 5\<rparr>, \<lparr>px = 11 / 5, pz = 11 / 5\<rparr>] (0, \<lparr>px = - (11 / 5), pz = - (11 / 5)\<rparr>))
   = [\<lparr>conn_to = ''level-0-room-1'', conn_direction = East\<rparr>,
      \<lparr>conn_to = ''level-0-room-2'', conn_direction = South\<rparr>]"
  by (simp add: make_room_def connect_step_def getDirection_def room_name_def string_of_small
      grid_room_size Let_def sqrt_scaled_less power2_eq_square)


lemma grid_levels: "levels (new_BuildingGrammar grid_four_config) = 3"
  by (simp add: grid_four_config_def new_BuildingGrammar_def num_or_def)

theorem level_connectivity_witness:
  "generate (new_BuildingGrammar grid_four_config)
     = Inr (projr (generate (new_BuildingGrammar grid_four_config)))
   \<and> generateLevel (new_BuildingGrammar grid_four_config) 0
       \<in> set (building_levels (projr (generate (new_BuildingGrammar grid_four_config))))
   \<and> length (rooms (generateLevel (new_BuildingGrammar grid_four_config) 0)) = 4
   \<and> connections (rooms (generateLevel (new_BuildingGrammar grid_four_config) 0) ! 0)
       = [\<lparr>conn_to = ''level-0-room-1'', conn_direction = East\<rparr>,
          \<lparr>conn_to = ''level-0-room-2'', conn_direction = South\<rparr>]
   \<and> planar_distance (rooms (generateLevel (new_BuildingGrammar grid_four_config) 0) ! 0)
        (rooms (generateLevel (new_BuildingGrammar grid_four_config) 0) ! 1)
       < roomSize (new_BuildingGrammar grid_four_config) * 1.2
   \<and> room_id (rooms (generateLevel (new_BuildingGrammar grid_four_config) 0) ! 1)
       \<in> conn_to ` set (connections (rooms (generateLevel (new_BuildingGrammar grid_four_config) 0) ! 0))
   \<and> distinct (map conn_to
        (connections (rooms (generateLevel (new_BuildingGrammar grid_four_config) 0) ! 0)))
   \<and> distinct (map room_id (rooms (generateLevel (new_BuildingGrammar grid_four_config) 0)))"
proof -
  let ?g = "new_BuildingGrammar grid_four_config"
  let ?lv = "generateLevel ?g 0"
  have r: "roomsPerLevel ?g = 4"
    by (simp add: grid_four_config_def new_BuildingGrammar_def num_or_def)
  then have pos: "0 < roomsPerLevel ?g" by simp
  have h1: "generate ?g = Inr (projr (generate ?g))"
    by (simp add: generate_result [OF pos])
  have h2: "?lv \<in> set (building_levels (projr (generate ?g)))"
    by (simp add: generate_result [OF pos] grid_levels upt_3)
  have n: "length (rooms ?lv) = 4"
    by (simp add: length_rooms_generateLevel r)
  have c: "connections (rooms ?lv ! 0)
       = [\<lparr>conn_to = ''level-0-room-1'', conn_direction = East\<rparr>,
          \<lparr>conn_to = ''level-0-room-2'', conn_direction = South\<rparr>]"
    using n by (simp add: rooms_nth grid_four_positions grid_four_room0)
  have d: "planar_distance (rooms ?lv ! 0) (rooms ?lv ! 1) < roomSize ?g * 1.2"
    using n by (simp add: planar_distance_def rooms_nth grid_four_positions make_room_fields
        grid_room_size sqrt_scaled_less power2_eq_square)
  have m: "rooms ?lv ! 0 \<in> set (rooms ?lv)" using n by simp
  note lc = level_connectivity [OF h1 h2]
  from lc n d have "room_id (rooms ?lv ! 1) \<in> conn_to ` set (connections (rooms ?lv ! 0))"
    by simp
  moreover from lc m have "distinct (map conn_to (connections (rooms ?lv ! 0)))"
    by blast
  moreover from lc have "distinct (map room_id (rooms ?lv))"
    by blast
  ultimately show ?thesis using h1 h2 n c d by (intro conjI)
qed

subsection \<open>A configuration with zero rooms per level\<close>

text \<open>
  C2 claims that \<open>roomsPerLevel = 0\<close> gives levels without rooms and stairs with an
  undefined room. The constructor reads the key with \<open>config.roomsPerLevel || 4\<close>, and 0 is
  falsy: the grammar is built with 4 rooms per level. At the configuration with
  \<open>roomsPerLevel = 0\<close> and every other key absent, \<open>generate\<close> returns three levels of 4
  rooms each and two stairs.
\<close>

theorem zero_rooms_counterexample:
  "cfg_roomsPerLevel zero_rooms_config = Some 0
   \<and> generate (new_BuildingGrammar zero_rooms_config)
       = Inr (projr (generate (new_BuildingGrammar zero_rooms_config)))
   \<and> map (length \<circ> rooms)
        (building_levels (projr (generate (new_BuildingGrammar zero_rooms_config)))) = [4, 4, 4]
   \<and> length (stairs (projr (generate (new_BuildingGrammar zero_rooms_config)))) = 2"
proof -
  have l: "levels (new_BuildingGrammar zero_rooms_config) = 3"
    and r: "roomsPerLevel (new_BuildingGrammar zero_rooms_config) = 4"
    and s: "hasStairs (new_BuildingGrammar zero_rooms_config)"
    by (simp_all add: zero_rooms_config_def new_BuildingGrammar_def num_or_def)
  from r have pos: "0 < roomsPerLevel (new_BuildingGrammar zero_rooms_config)" by simp
  show ?thesis
    by (simp add: generate_result [OF pos] l r s upt_3 upt_2 length_rooms_generateLevel)
      (simp add: zero_rooms_config_def)
qed

text \<open>
  C2, as the code has it: for a configuration with \<open>roomsPerLevel = 0\<close> the constructor
  takes the default 4, as for an absent key; \<open>generate\<close> succeeds, every level has exactly
  4 rooms, and every stair stands at the \<open>(x, z)\<close> of the first room of its level.
\<close>

theorem zero_rooms_defaults_to_four:
  assumes "cfg_roomsPerLevel cfg = Some 0"
  shows "roomsPerLevel (new_BuildingGrammar cfg) = 4
   \<and> new_BuildingGrammar cfg = new_BuildingGrammar (cfg\<lparr>cfg_roomsPerLevel := None\<rparr>)
   \<and> (\<exists>b. generate (new_BuildingGrammar cfg) = Inr b
        \<and> length (building_levels b) = nat \<lceil>levels (new_BuildingGrammar cfg)\<rceil>
        \<and> (\<forall>lv \<in> set (building_levels b). length (rooms lv) = 4)
        \<and> (\<forall>i < length (stairs b).
              stair_level (stairs b ! i) = i
              \<and> stair_x (stairs b ! i) = room_x (hd (rooms (building_levels b ! i)))
              \<and> stair_z (stairs b ! i) = room_z (hd (rooms (building_levels b ! i)))))"
proof -
  let ?g = "new_BuildingGrammar cfg"
  have r: "roomsPerLevel ?g = 4"
    using assms by (simp add: new_BuildingGrammar_def num_or_def)
  have e: "?g = new_BuildingGrammar (cfg\<lparr>cfg_roomsPerLevel := None\<rparr>)"
    using assms by (simp add: new_BuildingGrammar_def num_or_def)
  have pos: "0 < roomsPerLevel ?g" using r by simp
  have "\<exists>b. generate ?g = Inr b
        \<and> length (building_levels b) = nat \<lceil>levels ?g\<rceil>
        \<and> (\<forall>lv \<in> set (building_levels b). length (rooms lv) = 4)
        \<and> (\<forall>i < length (stairs b).
              stair_level (stairs b ! i) = i
              \<and> stair_x (stairs b ! i) = room_x (hd (rooms (building_levels b ! i)))
              \<and> stair_z (stairs b ! i) = room_z (hd (rooms (building_levels b ! i))))"
    by (auto simp: generate_result [OF pos] length_rooms_generateLevel r stair_of_level [OF pos])
  with r e show ?thesis by blast
qed

lemma three_all_four:
  "length xs = 3 \<Longrightarrow> \<forall>x \<in> set xs. f x = (4::nat) \<Longrightarrow> map f xs = [4, 4, 4]"
  by (auto simp: numeral_3_eq_3 length_Suc_conv)

theorem zero_rooms_defaults_to_four_witness:
  "cfg_roomsPerLevel zero_rooms_config = Some 0
   \<and> roomsPerLevel (new_BuildingGrammar zero_rooms_config) = 4
   \<and> (\<exists>b. generate (new_BuildingGrammar zero_rooms_config) = Inr b
        \<and> length (building_levels b) = 3
        \<and> map (length \<circ> rooms) (building_levels b) = [4, 4, 4])"
proof -
  have h: "cfg_roomsPerLevel zero_rooms_config = Some 0"
    by (simp add: zero_rooms_config_def)
  have l: "levels (new_BuildingGrammar zero_rooms_config) = 3"
    by (simp add: zero_rooms_config_def new_BuildingGrammar_def num_or_def)
  from zero_rooms_defaults_to_four [OF h] obtain b where
    b: "generate (new_BuildingGrammar zero_rooms_config) = Inr b"
      "length (building_levels b) = nat \<lceil>levels (new_BuildingGrammar zero_rooms_config)\<rceil>"
      "\<forall>lv \<in> set (building_levels b). length (rooms lv) = 4"
    and r: "roomsPerLevel (new_BuildingGrammar zero_rooms_config) = 4"
    by blast
  from b(2) l have "length (building_levels b) = 3" by simp
  moreover from this b(3) have "map (length \<circ> rooms) (building_levels b) = [4, 4, 4]"
    by (intro three_all_four) simp_all
  ultimately show ?thesis using h r b(1) by simp
qed

section \<open>Properties of the flocking simulator\<close>

subsection \<open>A single agent\<close>

lemma add_v_zero [simp]: "add_v a zero_v = a" "add_v zero_v a = a"
  by (simp_all add: add_v_def zero_v_def)

lemma multiplyScalar_zero_v [simp]: "multiplyScalar zero_v s = zero_v"
  by (simp add: multiplyScalar_def zero_v_def)

lemma multiplyScalar_one [simp]: "multiplyScalar a 1 = a"
  by (simp add: multiplyScalar_def)

lemma multiplyScalar_by_zero [simp]: "multiplyScalar a 0 = zero_v"
  by (simp add: multiplyScalar_def zero_v_def)

lemma length_v_zero [simp]: "length_v zero_v = 0"
  by (simp add: length_v_def zero_v_def)

lemma single_separate:
  assumes "boids sys = [b]"
  shows "separate sys 0 = zero_v"
  using assms by (simp add: separate_def separate_step_def Let_def)

lemma single_align:
  assumes "boids sys = [b]"
  shows "align sys 0 = zero_v"
  using assms by (simp add: align_def align_step_def Let_def)

lemma single_cohesion:
  assumes "boids sys = [b]"
  shows "cohesion sys 0 = zero_v"
  using assms by (simp add: cohesion_def cohesion_step_def Let_def)

lemma single_apply_forces:
  assumes "boids sys = [b]"
  shows "apply_forces sys 0 = applyForce b (boundaries sys b)"
  using assms
  by (simp add: apply_forces_def Let_def single_separate [OF assms] single_align [OF assms]
      single_cohesion [OF assms] applyForce_def)

lemma single_update:
  assumes "boids sys = [b]"
  shows "update sys deltaTime =
     sys\<lparr>boids := [Boid_update deltaTime (applyForce b (boundaries sys b))]\<rparr>"
  using assms by (simp add: update_def update_boid_def single_apply_forces [OF assms])

lemma Boid_update_acceleration [simp]:
  "acceleration (Boid_update deltaTime b) = zero_v"
  by (simp add: Boid_update_def Let_def)

lemma boundaries_inside:
  "inside_margins sys b \<Longrightarrow> boundaries sys b = zero_v"
  by (simp add: boundaries_def inside_margins_def Let_def zero_v_def length_v_def)

lemma single_steps:
  assumes "length (boids sys) = 1"
  shows "length (boids (foldl update sys dts)) = 1"
  using assms
proof (induction dts arbitrary: sys)
  case Nil
  then show ?case by simp
next
  case (Cons d dts)
  from Cons.prems obtain b where b: "boids sys = [b]"
    by (cases "boids sys") simp_all
  have "length (boids (update sys d)) = 1"
    by (simp add: single_update [OF b])
  from Cons.IH [OF this] show ?case by simp
qed

text \<open>
  C7. For a system with a single agent, the separation, alignment and cohesion forces are
  the zero vector; the acceleration after the four \<open>applyForce\<close> calls is the old
  acceleration plus the boundary force, hence the boundary force alone from the zero
  acceleration that the constructor and every \<open>update\<close> leave; the boundary force is zero
  when the agent is inside every margin. A step keeps the single agent and resets its
  acceleration, so the same holds after any sequence of steps.
\<close>

theorem single_agent_quiescence:
  assumes "length (boids sys) = 1"
  shows "separate sys 0 = zero_v \<and> align sys 0 = zero_v \<and> cohesion sys 0 = zero_v
   \<and> acceleration (apply_forces sys 0)
       = add_v (acceleration (boids sys ! 0)) (boundaries sys (boids sys ! 0))
   \<and> (acceleration (boids sys ! 0) = zero_v
        \<longrightarrow> acceleration (apply_forces sys 0) = boundaries sys (boids sys ! 0))
   \<and> (inside_margins sys (boids sys ! 0) \<longrightarrow> boundaries sys (boids sys ! 0) = zero_v)
   \<and> length (boids (update sys deltaTime)) = 1
   \<and> acceleration (boids (update sys deltaTime) ! 0) = zero_v
   \<and> length (boids (foldl update sys dts)) = 1
   \<and> separate (foldl update sys dts) 0 = zero_v
   \<and> align (foldl update sys dts) 0 = zero_v
   \<and> cohesion (foldl update sys dts) 0 = zero_v"
proof -
  from assms obtain b where b: "boids sys = [b]"
    by (cases "boids sys") simp_all
  from single_steps [OF assms, of dts] obtain b' where b': "boids (foldl update sys dts) = [b']"
    by (cases "boids (foldl update sys dts)") simp_all
  show ?thesis
    using boundaries_inside [of sys b]
    by (simp add: b single_separate [OF b] single_align [OF b] single_cohesion [OF b]
        single_apply_forces [OF b] single_update [OF b] applyForce_def
        single_separate [OF b'] single_align [OF b'] single_cohesion [OF b'] b')
qed

theorem single_agent_quiescence_witness:
  "length (boids (addBoid (new_FlockingSystem no_options)
      (new_Boid \<lparr>vx = 0, vy = 50, vz = 0\<rparr> \<lparr>vx = 1, vy = 0, vz = 0\<rparr>))) = 1
   \<and> separate (addBoid (new_FlockingSystem no_options)
      (new_Boid \<lparr>vx = 0, vy = 50, vz = 0\<rparr> \<lparr>vx = 1, vy = 0, vz = 0\<rparr>)) 0 = zero_v
   \<and> align (addBoid (new_FlockingSystem no_options)
      (new_Boid \<lparr>vx = 0, vy = 50, vz = 0\<rparr> \<lparr>vx = 1, vy = 0, vz = 0\<rparr>)) 0 = zero_v
   \<and> cohesion (addBoid (new_FlockingSystem no_options)
      (new_Boid \<lparr>vx = 0, vy = 50, vz = 0\<rparr> \<lparr>vx = 1, vy = 0, vz = 0\<rparr>)) 0 = zero_v
   \<and> inside_margins (addBoid (new_FlockingSystem no_options)
      (new_Boid \<lparr>vx = 0, vy = 50, vz = 0\<rparr> \<lparr>vx = 1, vy = 0, vz = 0\<rparr>))
      (new_Boid \<lparr>vx = 0, vy = 50, vz = 0\<rparr> \<lparr>vx = 1, vy = 0, vz = 0\<rparr>)
   \<and> acceleration (apply_forces (addBoid (new_FlockingSystem no_options)
      (new_Boid \<lparr>vx = 0, vy = 50, vz = 0\<rparr> \<lparr>vx = 1, vy = 0, vz = 0\<rparr>)) 0) = zero_v"
proof -
  let ?b = "new_Boid \<lparr>vx = 0, vy = 50, vz = 0\<rparr> \<lparr>vx = 1, vy = 0, vz = 0\<rparr>"
  let ?sys = "addBoid (new_FlockingSystem no_options) ?b"
  have b: "boids ?sys = [?b]"
    by (simp add: addBoid_def new_FlockingSystem_def)
  have n: "length (boids ?sys) = 1" by (simp add: b)
  have a: "acceleration (boids ?sys ! 0) = zero_v"
    unfolding b by (simp add: new_Boid_def)
  have m: "inside_margins ?sys (boids ?sys ! 0)"
    unfolding b
    by (simp add: inside_margins_def Let_def addBoid_def new_FlockingSystem_def no_options_def
        nullish_def new_Boid_def)
  from single_agent_quiescence [OF n, of 1 "[]"] n a m show ?thesis
    unfolding b by simp
qed

subsection \<open>The speed limit\<close>

text \<open>
  \<open>Boid.update\<close> limits the speed to its local constant 5.0, whatever \<open>config.maxSpeed\<close> is:
  after a step every agent's speed is at most 5.
\<close>

lemma length_v_nonneg: "0 \<le> length_v a"
  by (simp add: length_v_def)

lemma length_v_multiplyScalar: "length_v (multiplyScalar a s) = length_v a * \<bar>s\<bar>"
proof -
  have "vx a * s * (vx a * s) + vy a * s * (vy a * s) + vz a * s * (vz a * s)
      = (vx a * vx a + vy a * vy a + vz a * vz a) * s\<^sup>2"
    by (simp add: power2_eq_square algebra_simps)
  then show ?thesis
    by (simp add: length_v_def multiplyScalar_def real_sqrt_mult)
qed

lemma length_v_normalize:
  assumes "length_v a \<noteq> 0"
  shows "length_v (normalize a) = 1"
proof -
  have "0 < length_v a" using assms length_v_nonneg [of a] by simp
  then show ?thesis
    by (simp add: normalize_def divideScalar_def length_v_multiplyScalar)
qed

lemma Boid_update_speed: "length_v (velocity (Boid_update deltaTime b)) \<le> 5"
proof -
  let ?v1 = "add_v (velocity b) (multiplyScalar (acceleration b) deltaTime)"
  show ?thesis
  proof (cases "length_v ?v1 > 5")
    case True
    then have "length_v ?v1 \<noteq> 0" by simp
    from length_v_normalize [OF this] True show ?thesis
      by (simp add: Boid_update_def Let_def length_v_multiplyScalar)
  next
    case False
    then show ?thesis by (simp add: Boid_update_def Let_def)
  qed
qed

lemma length_update_boid:
  "length (boids (update_boid deltaTime s k)) = length (boids s)"
  by (simp add: update_boid_def)

lemma nth_update_boid:
  "k < length (boids s) \<Longrightarrow>
   boids (update_boid deltaTime s k) ! i =
     (if i = k then Boid_update deltaTime (apply_forces s k) else boids s ! i)"
  by (simp add: update_boid_def)

lemma update_prefix_speed:
  assumes "k \<le> length (boids sys)"
  shows "length (boids (foldl (update_boid deltaTime) sys [0..<k])) = length (boids sys)
   \<and> (\<forall>i<k. length_v (velocity (boids (foldl (update_boid deltaTime) sys [0..<k]) ! i)) \<le> 5)"
  using assms
proof (induction k)
  case 0
  show ?case by simp
next
  case (Suc k)
  let ?s = "foldl (update_boid deltaTime) sys [0..<k]"
  from Suc have len: "length (boids ?s) = length (boids sys)"
    and old: "\<forall>i<k. length_v (velocity (boids ?s ! i)) \<le> 5"
    by simp_all
  have k: "k < length (boids ?s)" using Suc.prems len by simp
  have step: "foldl (update_boid deltaTime) sys [0..<Suc k] = update_boid deltaTime ?s k"
    by simp
  have "length_v (velocity (boids (update_boid deltaTime ?s k) ! i)) \<le> 5" if "i < Suc k" for i
  proof (cases "i = k")
    case True
    then show ?thesis by (simp add: nth_update_boid [OF k] Boid_update_speed)
  next
    case False
    with that have "i < k" by simp
    with old False show ?thesis by (simp add: nth_update_boid [OF k])
  qed
  then show ?case unfolding step by (simp add: length_update_boid len)
qed

lemma update_speed_le_5:
  "i < length (boids sys) \<Longrightarrow> length_v (velocity (boids (update sys deltaTime) ! i)) \<le> 5"
  using update_prefix_speed [of "length (boids sys)" sys deltaTime]
  by (simp add: update_def)

text \<open>
  C1 claims the bound \<open>config.maxSpeed\<close>. With \<open>maxSpeed = 1\<close> and \<open>maxForce = 1\<close>, one agent
  at rest at \<open>(-24, 50, 0)\<close>, inside the margin of the lower x bound, and \<open>deltaTime = 2\<close>:
  the boundary force is \<open>(1, 0, 0)\<close> and the step leaves the agent with the velocity
  \<open>(2, 0, 0)\<close>, of magnitude 2, above the configured 1 and below the constant 5.
\<close>

theorem speed_exceeds_config_maxSpeed:
  "fc_maxSpeed (config (update
      (addBoid (new_FlockingSystem (no_options\<lparr>opt_maxSpeed := Some 1, opt_maxForce := Some 1\<rparr>))
         (new_Boid \<lparr>vx = - 24, vy = 50, vz = 0\<rparr> zero_v)) 2)) = 1
   \<and> velocity (boids (update
      (addBoid (new_FlockingSystem (no_options\<lparr>opt_maxSpeed := Some 1, opt_maxForce := Some 1\<rparr>))
         (new_Boid \<lparr>vx = - 24, vy = 50, vz = 0\<rparr> zero_v)) 2) ! 0) = \<lparr>vx = 2, vy = 0, vz = 0\<rparr>
   \<and> length_v (velocity (boids (update
      (addBoid (new_FlockingSystem (no_options\<lparr>opt_maxSpeed := Some 1, opt_maxForce := Some 1\<rparr>))
         (new_Boid \<lparr>vx = - 24, vy = 50, vz = 0\<rparr> zero_v)) 2) ! 0)) = 2"
proof -
  let ?b = "new_Boid \<lparr>vx = - 24, vy = 50, vz = 0\<rparr> zero_v"
  let ?sys = "addBoid (new_FlockingSystem (no_options\<lparr>opt_maxSpeed := Some 1, opt_maxForce := Some 1\<rparr>)) ?b"
  have b: "boids ?sys = [?b]"
    by (simp add: addBoid_def new_FlockingSystem_def)
  have c: "config ?sys = 
     \<lparr>fc_separation = 1.5, fc_alignment = 1, fc_cohesion = 1, fc_separationRadius = 2,
      fc_neighborRadius = 5, fc_maxSpeed = 1, fc_maxForce = 1,
      fc_bounds = \<lparr>width = 50, height = 50, depth = 50\<rparr>,
      fc_center = \<lparr>vx = 0, vy = 50, vz = 0\<rparr>, fc_planeHeight = 50\<rparr>"
    by (simp add: addBoid_def new_FlockingSystem_def no_options_def nullish_def)
  have f: "boundaries ?sys ?b = \<lparr>vx = 1, vy = 0, vz = 0\<rparr>"
    unfolding boundaries_def c
    by (simp add: new_Boid_def Let_def length_v_def normalize_def divideScalar_def
        multiplyScalar_def subVectors_def clampLength_def zero_v_def)
  have u: "Boid_update 2 (applyForce ?b \<lparr>vx = 1, vy = 0, vz = 0\<rparr>)
      = \<lparr>position = \<lparr>vx = - 20, vy = 50, vz = 0\<rparr>, velocity = \<lparr>vx = 2, vy = 0, vz = 0\<rparr>,
         acceleration = zero_v\<rparr>"
    by (simp add: Boid_update_def applyForce_def new_Boid_def Let_def length_v_def add_v_def
        multiplyScalar_def zero_v_def)
  show ?thesis
    unfolding single_update [OF b] f u
    by (simp add: c length_v_def)
qed

end
